theory Spec2Isabelle
  imports Main "HOL-Library.Word"
begin

section \<open>Data model\<close>

text \<open>
  The application is a Streamlit script: every user interaction re-runs the page function
  from top to bottom. A run reads widget values, calls the external collaborators
  (file service, link service, \<open>vectorize\<close>, \<open>get_retriever_id\<close>, the graph) and emits
  user-interface elements. The model makes both sides explicit: widget values and
  collaborators are parameters, and everything a run does to the outside is a list of
  events in program order. State that survives a run (the file store, the session state)
  is passed in and returned.
\<close>

type_synonym bytes = "8 word list"

text \<open>\<open>User\<close>: only \<open>user_id\<close> is read.\<close>

record user =
  user_id :: nat

text \<open>A file record of \<open>FileService\<close>: the code reads \<open>id\<close> and \<open>name\<close>.\<close>

record file_model =
  file_id :: nat
  file_name :: string

text \<open>A link record of \<open>LinkService\<close>: the code reads \<open>url\<close>.\<close>

record link_model =
  url :: string

text \<open>What \<open>st.file_uploader\<close> hands over for one file.\<close>

record uploaded_file =
  up_name :: string
  up_type :: string
  up_buffer :: bytes

text \<open>One chat history entry, the dict \<open>{"question", "answer", "events"}\<close>.\<close>

record history_entry =
  question :: string
  answer :: string
  events :: "string list"

text \<open>The dict passed to \<open>app.invoke\<close>; the retriever id is an opaque key.\<close>

record 'r graph_inputs =
  inputs_question :: string
  inputs_retriever_id :: 'r

text \<open>
  Python exceptions, as values. \<open>Exception msg\<close> is an instance of \<open>Exception\<close> whose
  \<open>str\<close> is \<open>msg\<close>; \<open>KeyError k\<close> is the exception a dict lookup of a missing key raises.
\<close>

datatype exn = Exception string | KeyError string

text \<open>The argument record of \<open>st.download_button\<close>.\<close>

record download =
  download_label :: string
  download_key :: string
  download_data :: string
  download_file_name :: string
  download_mime :: string

text \<open>
  The observable effects of a run, in program order: messages put on the page, chat
  messages put into the \<open>messages\<close> container (with the role given to
  \<open>chat_message\<close>), and the calls made to external collaborators. Static layout
  (titles, headers, columns, spinners) is not recorded.
\<close>

datatype 'r event =
    Warning string
  | Info string
  | Success string
  | Error string
  | Chat_write string string
  | Chat_error string string
  | Chat_warning string string
  | Download_button download
  | Rerun
  | Delete_file nat
  | Add_file bytes string string nat
  | Vectorize "file_model list" "link_model list"
  | Graph_invoke "'r graph_inputs"

text \<open>
  \<open>FileService\<close> is not part of the sources at hand; it is a parameter. Its store is a
  state of type \<open>'s\<close>: \<open>get_user_files\<close> reads it, \<open>delete_file\<close> and \<open>add_file\<close>
  change it, and \<open>add_file\<close> returns the new record or \<open>None\<close>.
\<close>

record 's file_service =
  get_user_files :: "nat \<Rightarrow> 's \<Rightarrow> file_model list"
  delete_file :: "nat \<Rightarrow> 's \<Rightarrow> 's"
  add_file :: "bytes \<Rightarrow> string \<Rightarrow> string \<Rightarrow> nat \<Rightarrow> 's \<Rightarrow> file_model option \<times> 's"

section \<open>File upload (\<open>main\<close> in app.py)\<close>

text \<open>
  The inner loop of the replacement branch:
  \<^verbatim>\<open>
  for existing_file in existing_files:
      if existing_file.name == uploaded_file.name:
          file_service.delete_file(existing_file.id)
          st.info(f"Replacing existing file: {uploaded_file.name}")
          break
  \<close>
\<close>

fun delete_existing ::
  "'s file_service \<Rightarrow> string \<Rightarrow> file_model list \<Rightarrow> 's \<Rightarrow> 's \<times> 'r event list" where
  "delete_existing svc n [] s = (s, [])"
| "delete_existing svc n (f # fs) s =
     (if file_name f = n
      then (delete_file svc (file_id f) s,
            [Delete_file (file_id f), Info (''Replacing existing file: '' @ n)])
      else delete_existing svc n fs s)"

text \<open>The call of \<open>add_file\<close> and the message that reports its result.\<close>

definition add_uploaded ::
  "'s file_service \<Rightarrow> nat \<Rightarrow> uploaded_file \<Rightarrow> 's \<Rightarrow> 's \<times> 'r event list" where
  "add_uploaded svc uid up s =
     (case add_file svc (up_buffer up) (up_name up) (up_type up) uid s of
        (file_model, s') \<Rightarrow>
          (s', [Add_file (up_buffer up) (up_name up) (up_type up) uid,
                (case file_model of
                   Some _ \<Rightarrow> Success (''Uploaded: '' @ up_name up)
                 | None \<Rightarrow> Error (''Failed to upload: '' @ up_name up))]))"

text \<open>The body of \<open>for uploaded_file in uploaded_files\<close>, for one file.\<close>

definition main_upload_file ::
  "'s file_service \<Rightarrow> bool \<Rightarrow> nat \<Rightarrow> uploaded_file \<Rightarrow> 's \<Rightarrow> 's \<times> 'r event list" where
  "main_upload_file svc replace_existing uid up s =
     (let existing_files = get_user_files svc uid s;
          duplicate = (\<exists>f \<in> set existing_files. file_name f = up_name up)
      in if duplicate \<and> \<not> replace_existing
         then (s, [Warning (''File '' @ [CHR 0x27] @ up_name up @ [CHR 0x27] @
                 '' already exists. Select 'Replace existing files' option to overwrite.'')])
         else
           (case (if duplicate \<and> replace_existing
                  then delete_existing svc (up_name up) existing_files s
                  else (s, [])) of
              (s1, log1) \<Rightarrow>
                (case add_uploaded svc uid up s1 of
                   (s2, log2) \<Rightarrow> (s2, log1 @ log2))))"

text \<open>The loop over the uploaded files.\<close>

fun main_upload_loop ::
  "'s file_service \<Rightarrow> bool \<Rightarrow> nat \<Rightarrow> uploaded_file list \<Rightarrow> 's \<Rightarrow> 's \<times> 'r event list" where
  "main_upload_loop svc replace_existing uid [] s = (s, [])"
| "main_upload_loop svc replace_existing uid (up # ups) s =
     (case main_upload_file svc replace_existing uid up s of
        (s1, log1) \<Rightarrow>
          (case main_upload_loop svc replace_existing uid ups s1 of
             (s2, log2) \<Rightarrow> (s2, log1 @ log2)))"

text \<open>
  The upload section of the sidebar: the form is shown to a logged-in user only, and
  the loop runs when the form was submitted with at least one file.
\<close>

definition main_upload_section ::
  "'s file_service \<Rightarrow> user option \<Rightarrow> uploaded_file list \<Rightarrow> bool \<Rightarrow> bool \<Rightarrow> 's
     \<Rightarrow> 's \<times> 'r event list" where
  "main_upload_section svc current_user uploaded_files replace_existing submit_button s =
     (case current_user of
        None \<Rightarrow> (s, [Warning ''Please log in to upload files''])
      | Some u \<Rightarrow>
          if submit_button \<and> uploaded_files \<noteq> []
          then main_upload_loop svc replace_existing (user_id u) uploaded_files s
          else (s, []))"

text \<open>
  A file service to run the handler on: an in-memory store of (owner, record) pairs.
  \<open>add_file\<close> refuses an empty upload and otherwise stores the file under an unused id.
\<close>

definition memory_service :: "(nat \<times> file_model) list file_service" where
  "memory_service =
     \<lparr> get_user_files = (\<lambda>uid s. map snd (filter (\<lambda>p. fst p = uid) s)),
       delete_file = (\<lambda>i s. filter (\<lambda>p. file_id (snd p) \<noteq> i) s),
       add_file = (\<lambda>buf n t uid s.
          if buf = [] then (None, s)
          else (let f = \<lparr> file_id = fold max (map (file_id \<circ> snd) s) 0 + 1, file_name = n \<rparr>
                in (Some f, s @ [(uid, f)]))) \<rparr>"

section \<open>Helpers from the Python runtime\<close>

text \<open>\<open>s.startswith(p)\<close>.\<close>

fun startswith :: "string \<Rightarrow> string \<Rightarrow> bool" where
  "startswith s [] = True"
| "startswith [] (p # ps) = False"
| "startswith (c # cs) (p # ps) = (c = p \<and> startswith cs ps)"

text \<open>\<open>str(n)\<close> for a natural number, as the f-strings print \<open>len(...)\<close>.\<close>

fun str_nat :: "nat \<Rightarrow> string" where
  "str_nat n =
     (if n < 10 then [''0123456789'' ! n]
      else str_nat (n div 10) @ [''0123456789'' ! (n mod 10)])"

declare str_nat.simps [simp del]

text \<open>\<open>str(e)\<close>: a \<open>KeyError\<close> prints the \<open>repr\<close> of its key.\<close>

fun str_exn :: "exn \<Rightarrow> string" where
  "str_exn (Exception msg) = msg"
| "str_exn (KeyError k) = [CHR 0x27] @ k @ [CHR 0x27]"

text \<open>
  A dict, in insertion order. Assigning to a key that is present replaces the value and
  keeps the key's place, as the dict comprehensions of the source do for repeated names.
\<close>

fun dict_set :: "'k \<Rightarrow> 'v \<Rightarrow> ('k \<times> 'v) list \<Rightarrow> ('k \<times> 'v) list" where
  "dict_set k v [] = [(k, v)]"
| "dict_set k v (p # d) = (if fst p = k then (k, v) # d else p # dict_set k v d)"

definition dict_by :: "('v \<Rightarrow> 'k) \<Rightarrow> 'v list \<Rightarrow> ('k \<times> 'v) list" where
  "dict_by key xs = fold (\<lambda>x d. dict_set (key x) x d) xs []"

definition dict_get :: "(string \<times> 'v) list \<Rightarrow> string \<Rightarrow> exn + 'v" where
  "dict_get d k = (case map_of d k of None \<Rightarrow> Inl (KeyError k) | Some v \<Rightarrow> Inr v)"

text \<open>\<open>[d[k] for k in ks]\<close>: the first missing key raises.\<close>

fun dict_get_all :: "(string \<times> 'v) list \<Rightarrow> string list \<Rightarrow> exn + 'v list" where
  "dict_get_all d [] = Inr []"
| "dict_get_all d (k # ks) =
     (case dict_get d k of
        Inl e \<Rightarrow> Inl e
      | Inr v \<Rightarrow> (case dict_get_all d ks of Inl e \<Rightarrow> Inl e | Inr vs \<Rightarrow> Inr (v # vs)))"

section \<open>\<open>json.dumps(history, indent=4)\<close>\<close>

text \<open>
  The serializer of the Python standard library, on the values the history holds: a
  list of dicts with the keys \<open>question\<close>, \<open>answer\<close>, \<open>events\<close> in this order, the
  first two holding strings and the third a list of strings. With \<open>indent=4\<close> every
  item of a non-empty container starts a new line, indented by four spaces per level,
  items are separated by a comma and a key from its value by a colon and a space; an
  empty list is \<open>[]\<close>. With the default \<open>ensure_ascii=True\<close> a string is written in
  double quotes with the quote, the backslash and the control characters
  \<open>\n \r \t \f \b\<close> as two-character escapes, every other character outside
  \<open>' '..'~'\<close> as \<open>\uXXXX\<close> with lower-case hexadecimal digits, and the rest unchanged.
  A \<open>char\<close> is read as the code point of its number (0 to 255).
\<close>

definition hex_digit :: "nat \<Rightarrow> char" where
  "hex_digit n = ''0123456789abcdef'' ! n"

definition escape_char :: "char \<Rightarrow> string" where
  "escape_char c =
     (if c = CHR 0x22 then [CHR 0x5C, CHR 0x22]
      else if c = CHR 0x5C then [CHR 0x5C, CHR 0x5C]
      else if c = CHR 0x0A then [CHR 0x5C, CHR ''n'']
      else if c = CHR 0x0D then [CHR 0x5C, CHR ''r'']
      else if c = CHR 0x09 then [CHR 0x5C, CHR ''t'']
      else if c = CHR 0x0C then [CHR 0x5C, CHR ''f'']
      else if c = CHR 0x08 then [CHR 0x5C, CHR ''b'']
      else if 32 \<le> (of_char c :: nat) \<and> (of_char c :: nat) \<le> 126 then [c]
      else [CHR 0x5C, CHR ''u'', CHR ''0'', CHR ''0'',
            hex_digit ((of_char c :: nat) div 16), hex_digit ((of_char c :: nat) mod 16)])"

definition encode_string :: "string \<Rightarrow> string" where
  "encode_string s = [CHR 0x22] @ concat (map escape_char s) @ [CHR 0x22]"

definition newline_indent :: "nat \<Rightarrow> string" where
  "newline_indent level = CHR 0x0A # replicate (4 * level) CHR '' ''"

text \<open>The chunks of a non-empty container's items, with the separators between them.\<close>

fun join_items :: "nat \<Rightarrow> string list \<Rightarrow> string" where
  "join_items level [] = []"
| "join_items level [x] = x"
| "join_items level (x # y # ys) = x @ '','' @ newline_indent level @ join_items level (y # ys)"

definition encode_string_list :: "nat \<Rightarrow> string list \<Rightarrow> string" where
  "encode_string_list level xs =
     (if xs = [] then ''[]''
      else ''['' @ newline_indent (Suc level) @ join_items (Suc level) (map encode_string xs)
           @ newline_indent level @ '']'')"

definition encode_entry :: "nat \<Rightarrow> history_entry \<Rightarrow> string" where
  "encode_entry level e =
     ''{'' @ newline_indent (Suc level)
     @ join_items (Suc level)
         [encode_string ''question'' @ '': '' @ encode_string (question e),
          encode_string ''answer'' @ '': '' @ encode_string (answer e),
          encode_string ''events'' @ '': '' @ encode_string_list (Suc level) (events e)]
     @ newline_indent level @ ''}''"

definition json_dumps :: "history_entry list \<Rightarrow> string" where
  "json_dumps history =
     (if history = [] then ''[]''
      else ''['' @ newline_indent 1 @ join_items 1 (map (encode_entry 1) history)
           @ newline_indent 0 @ '']'')"

section \<open>\<open>json.loads\<close> on a downloaded history\<close>



















section \<open>The LangGraph tab (\<open>LangGraphUI\<close> in ui/langgraph_ui.py)\<close>

text \<open>\<open>LinkService\<close>, a parameter like the file service; only \<open>get_user_links\<close> is called.\<close>

record 't link_service =
  get_user_links :: "nat \<Rightarrow> 't \<Rightarrow> link_model list"

text \<open>The two attributes of a \<open>LangGraphUI\<close> object; each may be \<open>None\<close>.\<close>

record ('s, 't) langgraph_ui =
  file_service :: "'s file_service option"
  link_service :: "'t link_service option"

text \<open>
  The functions the module imports. \<open>vectorize\<close> returns a truth value or raises;
  \<open>graph_invoke\<close> stands for \<open>get_graph().invoke\<close> and returns the final state, a dict,
  or raises.
\<close>

record 'r externals =
  vectorize :: "file_model list \<Rightarrow> link_model list \<Rightarrow> exn + bool"
  get_retriever_id :: "file_model list \<Rightarrow> link_model list \<Rightarrow> 'r"
  graph_invoke :: "'r graph_inputs \<Rightarrow> exn + (string \<rightharpoonup> string)"

text \<open>
  What the widgets return in one run: \<open>st.multiselect\<close> by label and options,
  \<open>st.button\<close> by label, \<open>st.chat_input\<close> by placeholder.
\<close>

record widgets =
  multiselect :: "string \<Rightarrow> string list \<Rightarrow> string list"
  button :: "string \<Rightarrow> bool"
  chat_input :: "string \<Rightarrow> string option"

text \<open>\<open>st.session_state\<close>: the key \<open>langgraph_history\<close> is absent or holds a list.\<close>

record session_state =
  langgraph_history :: "history_entry list option"

text \<open>What a run leaves behind: the session state, the events, and the exception that
  ended it, if one did.\<close>

record 'r run =
  session :: session_state
  log :: "'r event list"
  raised :: "exn option"

text \<open>The first column: the files of the user and the selection among them.\<close>

definition select_files ::
  "'s file_service option \<Rightarrow> 's \<Rightarrow> user \<Rightarrow> widgets \<Rightarrow> 'r event list \<times> (exn + file_model list)" where
  "select_files fsvc fstore u w =
     (case fsvc of
        None \<Rightarrow> ([Info ''File service not available.''], Inr [])
      | Some svc \<Rightarrow>
          (let user_files = get_user_files svc (user_id u) fstore
           in if user_files = []
              then ([Info ''No files available. Upload files from the sidebar.''], Inr [])
              else
                (let file_options = dict_by file_name user_files;
                     selected_file_names =
                       multiselect w ''Choose files to include'' (map fst file_options)
                 in case dict_get_all file_options selected_file_names of
                      Inl e \<Rightarrow> ([], Inl e)
                    | Inr selected_files \<Rightarrow>
                        (if selected_files \<noteq> []
                         then [Success (''Selected '' @ str_nat (length selected_files)
                                 @ '' files for RAG'')]
                         else [],
                         Inr selected_files))))"

text \<open>The second column: the same for links.\<close>

definition select_links ::
  "'t link_service option \<Rightarrow> 't \<Rightarrow> user \<Rightarrow> widgets \<Rightarrow> 'r event list \<times> (exn + link_model list)" where
  "select_links lsvc lstore u w =
     (case lsvc of
        None \<Rightarrow> ([Info ''Link service not available.''], Inr [])
      | Some svc \<Rightarrow>
          (let user_links = get_user_links svc (user_id u) lstore
           in if user_links = []
              then ([Info ''No links available. Add links from the sidebar.''], Inr [])
              else
                (let link_options = dict_by url user_links;
                     selected_link_urls =
                       multiselect w ''Choose links to include'' (map fst link_options)
                 in case dict_get_all link_options selected_link_urls of
                      Inl e \<Rightarrow> ([], Inl e)
                    | Inr selected_links \<Rightarrow>
                        (if selected_links \<noteq> []
                         then [Success (''Selected '' @ str_nat (length selected_links)
                                 @ '' links for RAG'')]
                         else [],
                         Inr selected_links))))"

text \<open>
  The build-index handler:
  \<^verbatim>\<open>
  if build_index:
      if not selected_files and not selected_links:
          st.warning(...)
      else:
          try:
              success = vectorize(selected_files, selected_links)
              if success: st.success(...)
              else: st.error(...)
          except Exception as e:
              st.error(f"Error initializing vector store: {e}")
  \<close>
\<close>

definition build_index ::
  "'r externals \<Rightarrow> widgets \<Rightarrow> file_model list \<Rightarrow> link_model list \<Rightarrow> 'r event list" where
  "build_index imp w selected_files selected_links =
     (if button w ''Build Index from Selected Files & Links''
      then if selected_files = [] \<and> selected_links = []
           then [Warning ''Please select at least one file or link to build the index.'']
           else Vectorize selected_files selected_links #
                (case vectorize imp selected_files selected_links of
                   Inr success \<Rightarrow>
                     if success then [Success ''Vector store initialized successfully!'']
                     else [Error ''Failed to initialize vector store.'']
                 | Inl e \<Rightarrow> [Error (''Error initializing vector store: '' @ str_exn e)])
      else [])"

text \<open>The local function \<open>display_result(item, show_question=True)\<close>.\<close>

definition display_result :: "history_entry \<Rightarrow> bool \<Rightarrow> 'r event list" where
  "display_result item show_question =
     (if show_question then [Chat_write ''user'' (question item)] else [])
     @ (if startswith (answer item) ''Error''
        then [Chat_error ''ai'' (answer item)]
        else Chat_write ''ai'' (answer item) # map (Chat_write ''ai'') (events item))"

text \<open>
  The chat input. A prompt is submitted when \<open>st.chat_input\<close> returns a non-empty
  string. The graph is invoked outside any \<open>try\<close>; reading \<open>generation\<close> from the final
  state raises \<open>KeyError\<close> when the key is missing. The result is the history after the
  block, its events, and the exception that left it.
\<close>

definition submit_prompt ::
  "'r externals \<Rightarrow> widgets \<Rightarrow> file_model list \<Rightarrow> link_model list \<Rightarrow> history_entry list
     \<Rightarrow> history_entry list \<times> 'r event list \<times> exn option" where
  "submit_prompt imp w selected_files selected_links history =
     (case chat_input w ''Ask a Question'' of
        None \<Rightarrow> (history, [], None)
      | Some prompt \<Rightarrow>
          if prompt = [] then (history, [], None)
          else
            (let shown =
                   Chat_write ''user'' prompt #
                   (if selected_files = [] \<and> selected_links = []
                    then [Chat_warning ''AI'' (''You haven't selected any files or links. ''
                            @ ''LangGraph will use default sources or web search.'')]
                    else []);
                 retriever_id = get_retriever_id imp selected_files selected_links;
                 inputs = \<lparr> inputs_question = prompt, inputs_retriever_id = retriever_id \<rparr>
             in case graph_invoke imp inputs of
                  Inl e \<Rightarrow> (history, shown @ [Graph_invoke inputs], Some e)
                | Inr final_state \<Rightarrow>
                    (case final_state ''generation'' of
                       None \<Rightarrow>
                         (history, shown @ [Graph_invoke inputs], Some (KeyError ''generation''))
                     | Some generation \<Rightarrow>
                         (let result = \<lparr> question = prompt, answer = generation, events = [] \<rparr>
                          in (history @ [result],
                              shown @ [Graph_invoke inputs] @ display_result result False,
                              None)))))"

text \<open>The download button and the clear button, shown while the history is not empty.\<close>

definition history_controls ::
  "widgets \<Rightarrow> history_entry list \<Rightarrow> history_entry list \<times> 'r event list" where
  "history_controls w history =
     (if history \<noteq> []
      then (let offered = Download_button
                  \<lparr> download_label = ''Download History'',
                    download_key = ''rag_chat_history_download'',
                    download_data = json_dumps history,
                    download_file_name = ''rag_chat_history.json'',
                    download_mime = ''application/json'' \<rparr>
            in if button w ''Clear History''
               then ([], [offered, Rerun])
               else (history, [offered]))
      else (history, []))"

text \<open>
  The warning shown without an API key starts with the warning sign U+26A0 U+FE0F, given
  here by its UTF-8 bytes.
\<close>

definition no_api_key_warning :: string where
  "no_api_key_warning =
     [CHR 0xE2, CHR 0x9A, CHR 0xA0, CHR 0xEF, CHR 0xB8, CHR 0x8F]
     @ '' OpenAI API key is not set in environment variables. ''
     @ ''Please ask your administrator to configure it.''"

text \<open>
  \<open>render_langgraph_section\<close>, one run of the tab. An exception raised on the way ends
  the run; what was written to the session state before stays.
\<close>

definition render_langgraph_section ::
  "('s, 't) langgraph_ui \<Rightarrow> 'r externals \<Rightarrow> 's \<Rightarrow> 't \<Rightarrow> (string \<rightharpoonup> string) \<Rightarrow> widgets
     \<Rightarrow> user option \<Rightarrow> session_state \<Rightarrow> 'r run" where
  "render_langgraph_section self imp fstore lstore environ w current_user st =
     (case current_user of
        None \<Rightarrow>
          \<lparr> session = st, log = [Warning ''You must be logged in to use LangGraph RAG.''],
            raised = None \<rparr>
      | Some u \<Rightarrow>
          if environ ''OPENAI_API_KEY'' = None
          then \<lparr> session = st, log = [Warning no_api_key_warning], raised = None \<rparr>
          else
            (let history0 = (case langgraph_history st of None \<Rightarrow> [] | Some h \<Rightarrow> h)
             in case select_files (file_service self) fstore u w of
                  (log1, Inl e) \<Rightarrow>
                    \<lparr> session = \<lparr> langgraph_history = Some history0 \<rparr>, log = log1,
                      raised = Some e \<rparr>
                | (log1, Inr selected_files) \<Rightarrow>
                    (case select_links (link_service self) lstore u w of
                       (log2, Inl e) \<Rightarrow>
                         \<lparr> session = \<lparr> langgraph_history = Some history0 \<rparr>,
                           log = log1 @ log2, raised = Some e \<rparr>
                     | (log2, Inr selected_links) \<Rightarrow>
                         (let log3 = build_index imp w selected_files selected_links;
                              log4 = concat (map (\<lambda>item. display_result item True) history0)
                          in case submit_prompt imp w selected_files selected_links history0 of
                               (history1, log5, Some e) \<Rightarrow>
                                 \<lparr> session = \<lparr> langgraph_history = Some history1 \<rparr>,
                                   log = log1 @ log2 @ log3 @ log4 @ log5, raised = Some e \<rparr>
                             | (history1, log5, None) \<Rightarrow>
                                 (case history_controls w history1 of
                                    (history2, log6) \<Rightarrow>
                                      \<lparr> session = \<lparr> langgraph_history = Some history2 \<rparr>,
                                        log = log1 @ log2 @ log3 @ log4 @ log5 @ log6,
                                        raised = None \<rparr>)))))"

section \<open>Reading a run's events\<close>

text \<open>The arguments of the calls to \<open>vectorize\<close> and to the graph, in call order.\<close>

fun vectorize_calls :: "'r event list \<Rightarrow> (file_model list \<times> link_model list) list" where
  "vectorize_calls [] = []"
| "vectorize_calls (Vectorize fs ls # es) = (fs, ls) # vectorize_calls es"
| "vectorize_calls (e # es) = vectorize_calls es"

fun graph_calls :: "'r event list \<Rightarrow> 'r graph_inputs list" where
  "graph_calls [] = []"
| "graph_calls (Graph_invoke i # es) = i # graph_calls es"
| "graph_calls (e # es) = graph_calls es"

text \<open>The download buttons a run offered.\<close>

fun downloads :: "'r event list \<Rightarrow> download list" where
  "downloads [] = []"
| "downloads (Download_button d # es) = d # downloads es"
| "downloads (e # es) = downloads es"

text \<open>The history a session state holds; an absent key reads as the empty history.\<close>

definition history_of :: "session_state \<Rightarrow> history_entry list" where
  "history_of st = (case langgraph_history st of None \<Rightarrow> [] | Some h \<Rightarrow> h)"

section \<open>Sample collaborators and inputs\<close>

text \<open>
  Concrete services, imported functions and widget values to run the handlers on. They
  are examples of what the parameters can be, nothing of the application itself.
\<close>

definition unavailable_service :: "unit file_service" where
  "unavailable_service =
     \<lparr> get_user_files = (\<lambda>uid s. []),
       delete_file = (\<lambda>i s. s),
       add_file = (\<lambda>buf n t uid s. (None, s)) \<rparr>"

definition memory_links :: "(nat \<times> link_model) list link_service" where
  "memory_links = \<lparr> get_user_links = (\<lambda>uid s. map snd (filter (\<lambda>p. fst p = uid) s)) \<rparr>"

definition sample_upload :: uploaded_file where
  "sample_upload =
     \<lparr> up_name = ''a.pdf'', up_type = ''application/pdf'', up_buffer = [37, 80, 68, 70] \<rparr>"

definition one_copy :: "(nat \<times> file_model) list" where
  "one_copy = [(7, \<lparr> file_id = 1, file_name = ''a.pdf'' \<rparr>)]"

definition two_copies :: "(nat \<times> file_model) list" where
  "two_copies = [(7, \<lparr> file_id = 1, file_name = ''a.pdf'' \<rparr>),
                 (7, \<lparr> file_id = 2, file_name = ''a.pdf'' \<rparr>)]"

definition sample_ui :: "((nat \<times> file_model) list, (nat \<times> link_model) list) langgraph_ui" where
  "sample_ui = \<lparr> file_service = Some memory_service, link_service = Some memory_links \<rparr>"

definition sample_links :: "(nat \<times> link_model) list" where
  "sample_links = [(7, \<lparr> url = ''https://example.org/manual'' \<rparr>)]"

text \<open>
  \<open>vectorize\<close> fails on links and succeeds on files alone; the graph raises on the
  question \<open>crash\<close> and otherwise answers with the retriever id.
\<close>

definition sample_externals :: "string externals" where
  "sample_externals =
     \<lparr> vectorize = (\<lambda>fs ls. if ls = [] then Inr True else Inl (Exception ''fetch failed'')),
       get_retriever_id = (\<lambda>fs ls. concat (map file_name fs) @ concat (map url ls)),
       graph_invoke = (\<lambda>i. if inputs_question i = ''crash'' then Inl (Exception ''graph down'')
                            else Inr [''generation'' \<mapsto> ''Index '' @ inputs_retriever_id i]) \<rparr>"

definition sample_environ :: "string \<rightharpoonup> string" where
  "sample_environ = [''OPENAI_API_KEY'' \<mapsto> ''sk-test'']"

definition sample_user :: user where
  "sample_user = \<lparr> user_id = 7 \<rparr>"

text \<open>Nothing selected, nothing pressed, nothing asked.\<close>

definition idle :: widgets where
  "idle = \<lparr> multiselect = (\<lambda>label options. []), button = (\<lambda>label. False),
            chat_input = (\<lambda>placeholder. None) \<rparr>"

definition sample_history :: "history_entry list" where
  "sample_history =
     [\<lparr> question = ''Which pump?'', answer = ''Error: no index'', events = [] \<rparr>,
      \<lparr> question = ''Torque?'', answer = ''40 Nm'', events = [''retrieve'', ''generate''] \<rparr>]"

section \<open>Properties of the file upload\<close>

lemma find_Some_set: "find P xs = Some x \<Longrightarrow> x \<in> set xs \<and> P x"
  by (induction xs) (auto split: if_splits)

lemma collision_has_first:
  "\<exists>f \<in> set fs. P f \<Longrightarrow> \<exists>f. find P fs = Some f"
  by (induction fs) auto

lemma delete_existing_first:
  "find (\<lambda>f. file_name f = n) fs = Some f \<Longrightarrow>
   delete_existing svc n fs s =
     (delete_file svc (file_id f) s,
      [Delete_file (file_id f), Info (''Replacing existing file: '' @ n)])"
  by (induction fs) (auto split: if_splits)

text \<open>
  Claim C1, as the code has it. When the uploaded name collides and \<open>replace_existing\<close> is
  set, the handler deletes one existing file, the first of \<open>get_user_files\<close> with that
  name (the loop leaves at \<open>break\<close>), announces the replacement, and then calls
  \<open>add_file\<close> on the store the delete left, reporting its result. The delete comes
  before the add; no other call is made.
\<close>

theorem upload_replace_deletes_first:
  assumes "find (\<lambda>f. file_name f = up_name up) (get_user_files svc uid s) = Some f"
  shows "main_upload_file svc True uid up s =
     (case add_file svc (up_buffer up) (up_name up) (up_type up) uid
             (delete_file svc (file_id f) s) of
        (r, s') \<Rightarrow>
          (s', [Delete_file (file_id f),
                Info (''Replacing existing file: '' @ up_name up),
                Add_file (up_buffer up) (up_name up) (up_type up) uid,
                (case r of Some _ \<Rightarrow> Success (''Uploaded: '' @ up_name up)
                 | None \<Rightarrow> Error (''Failed to upload: '' @ up_name up))]))"
proof -
  from assms have "\<exists>f \<in> set (get_user_files svc uid s). file_name f = up_name up"
    by (auto dest: find_Some_set)
  then show ?thesis
    by (simp add: main_upload_file_def delete_existing_first [OF assms]
        add_uploaded_def split: prod.splits)
qed

text \<open>
  The theorem at a store that holds the name twice: file 1 is deleted, file 2 stays, and
  the upload is stored as file 3.
\<close>

theorem upload_replace_deletes_first_witness:
  "main_upload_file memory_service True 7 sample_upload two_copies =
     ([(7, \<lparr> file_id = 2, file_name = ''a.pdf'' \<rparr>), (7, \<lparr> file_id = 3, file_name = ''a.pdf'' \<rparr>)],
      [Delete_file 1, Info ''Replacing existing file: a.pdf'',
       Add_file [37, 80, 68, 70] ''a.pdf'' ''application/pdf'' 7,
       Success ''Uploaded: a.pdf'' :: unit event])"
proof -
  have first: "find (\<lambda>f. file_name f = up_name sample_upload)
      (get_user_files memory_service 7 two_copies) = Some \<lparr> file_id = 1, file_name = ''a.pdf'' \<rparr>"
    by (simp add: memory_service_def two_copies_def sample_upload_def)
  have "main_upload_file memory_service True 7 sample_upload two_copies =
     (case add_file memory_service (up_buffer sample_upload) (up_name sample_upload)
             (up_type sample_upload) 7
             (delete_file memory_service (file_id \<lparr> file_id = 1, file_name = ''a.pdf'' \<rparr>) two_copies) of
        (r, s') \<Rightarrow>
          (s', [Delete_file (file_id \<lparr> file_id = 1, file_name = ''a.pdf'' \<rparr>),
                Info (''Replacing existing file: '' @ up_name sample_upload),
                Add_file (up_buffer sample_upload) (up_name sample_upload) (up_type sample_upload) 7,
                (case r of Some _ \<Rightarrow> Success (''Uploaded: '' @ up_name sample_upload)
                 | None \<Rightarrow> Error (''Failed to upload: '' @ up_name sample_upload))]))"
    by (rule upload_replace_deletes_first [OF first])
  also have "\<dots> = ([(7, \<lparr> file_id = 2, file_name = ''a.pdf'' \<rparr>), (7, \<lparr> file_id = 3, file_name = ''a.pdf'' \<rparr>)],
      [Delete_file 1, Info ''Replacing existing file: a.pdf'',
       Add_file [37, 80, 68, 70] ''a.pdf'' ''application/pdf'' 7,
       Success ''Uploaded: a.pdf''])"
    by (simp add: memory_service_def two_copies_def sample_upload_def Let_def)
  finally show ?thesis .
qed

text \<open>
  Claim C1 as stated asks for a delete on every colliding file. With two existing files
  of the uploaded name, the second one collides and is never deleted.
\<close>

theorem upload_replace_keeps_second_copy:
  "\<lparr> file_id = 2, file_name = ''a.pdf'' \<rparr> \<in> set (get_user_files memory_service 7 two_copies)
   \<and> file_name \<lparr> file_id = 2, file_name = ''a.pdf'' \<rparr> = up_name sample_upload
   \<and> (Delete_file 2 :: unit event)
        \<notin> set (snd (main_upload_file memory_service True 7 sample_upload two_copies))"
  by (simp add: main_upload_file_def memory_service_def two_copies_def sample_upload_def
      add_uploaded_def Let_def)

text \<open>
  Claim C3. When the uploaded name collides and \<open>replace_existing\<close> is not set, the
  handler leaves the store as it is, makes no call to \<open>delete_file\<close> or \<open>add_file\<close>
  (its only event is the warning), and the loop goes on with the remaining files from
  the same store.
\<close>

theorem upload_collision_skipped:
  assumes "\<exists>f \<in> set (get_user_files svc uid s). file_name f = up_name up"
  shows "main_upload_file svc False uid up s =
           (s, [Warning (''File '' @ [CHR 0x27] @ up_name up @ [CHR 0x27] @
                  '' already exists. Select 'Replace existing files' option to overwrite.'')])
       \<and> main_upload_loop svc False uid (up # ups) s =
           (case main_upload_loop svc False uid ups s of
              (s', rest) \<Rightarrow>
                (s', Warning (''File '' @ [CHR 0x27] @ up_name up @ [CHR 0x27] @
                  '' already exists. Select 'Replace existing files' option to overwrite.'')
                 # rest))"
  using assms by (simp add: main_upload_file_def)

text \<open>
  The theorem at a store holding \<open>a.pdf\<close>: uploading \<open>a.pdf\<close> and then \<open>b.pdf\<close> warns
  about the first and stores the second.
\<close>

theorem upload_collision_skipped_witness:
  "main_upload_file memory_service False 7 sample_upload one_copy =
     (one_copy, [Warning ''File 'a.pdf' already exists. Select 'Replace existing files' option to overwrite.'' :: unit event])
   \<and> main_upload_loop memory_service False 7 [sample_upload, sample_upload\<lparr>up_name := ''b.pdf''\<rparr>] one_copy =
     (one_copy @ [(7, \<lparr> file_id = 2, file_name = ''b.pdf'' \<rparr>)],
      [Warning ''File 'a.pdf' already exists. Select 'Replace existing files' option to overwrite.'',
       Add_file [37, 80, 68, 70] ''b.pdf'' ''application/pdf'' 7,
       Success ''Uploaded: b.pdf'' :: unit event])"
proof -
  have dup: "\<exists>f \<in> set (get_user_files memory_service 7 one_copy). file_name f = up_name sample_upload"
    by (simp add: memory_service_def one_copy_def sample_upload_def)
  have rest: "main_upload_loop memory_service False 7 [sample_upload\<lparr>up_name := ''b.pdf''\<rparr>] one_copy
      = (one_copy @ [(7, \<lparr> file_id = 2, file_name = ''b.pdf'' \<rparr>)],
         [Add_file [37, 80, 68, 70] ''b.pdf'' ''application/pdf'' 7, Success ''Uploaded: b.pdf'' :: unit event])"
    by (simp add: main_upload_file_def memory_service_def one_copy_def sample_upload_def
      add_uploaded_def Let_def)
  have name: "up_name sample_upload = ''a.pdf''"
    by (simp add: sample_upload_def)
  have "main_upload_file memory_service False 7 sample_upload one_copy =
          (one_copy, [Warning (''File '' @ [CHR 0x27] @ up_name sample_upload @ [CHR 0x27] @
             '' already exists. Select 'Replace existing files' option to overwrite.'') :: unit event])
      \<and> main_upload_loop memory_service False 7
           (sample_upload # [sample_upload\<lparr>up_name := ''b.pdf''\<rparr>]) one_copy =
          (case main_upload_loop memory_service False 7 [sample_upload\<lparr>up_name := ''b.pdf''\<rparr>] one_copy of
             (s', rest) \<Rightarrow>
               (s', (Warning (''File '' @ [CHR 0x27] @ up_name sample_upload @ [CHR 0x27] @
                  '' already exists. Select 'Replace existing files' option to overwrite.'') :: unit event)
                # rest))"
    by (rule upload_collision_skipped [OF dup])
  then show ?thesis
    unfolding rest name by (simp del: main_upload_loop.simps)
qed

text \<open>
  Claim C4, as the code has it. When no existing file has the uploaded name, the handler
  calls \<open>add_file\<close> exactly once, on the unchanged store, with no delete before it, and
  then shows success when \<open>add_file\<close> returned a record and the error
  \<open>Failed to upload\<close> when it returned \<open>None\<close>.
\<close>

theorem upload_new_file_added:
  assumes "\<not> (\<exists>f \<in> set (get_user_files svc uid s). file_name f = up_name up)"
  shows "main_upload_file svc replace_existing uid up s =
     (case add_file svc (up_buffer up) (up_name up) (up_type up) uid s of
        (r, s') \<Rightarrow>
          (s', [Add_file (up_buffer up) (up_name up) (up_type up) uid,
                (case r of Some _ \<Rightarrow> Success (''Uploaded: '' @ up_name up)
                 | None \<Rightarrow> Error (''Failed to upload: '' @ up_name up))]))"
  using assms by (simp add: main_upload_file_def add_uploaded_def split: prod.splits)

text \<open>
  The theorem at a store holding \<open>a.pdf\<close> and the upload \<open>b.pdf\<close>.
\<close>

theorem upload_new_file_added_witness:
  "main_upload_file memory_service False 7 (sample_upload\<lparr>up_name := ''b.pdf''\<rparr>) one_copy =
     (one_copy @ [(7, \<lparr> file_id = 2, file_name = ''b.pdf'' \<rparr>)],
      [Add_file [37, 80, 68, 70] ''b.pdf'' ''application/pdf'' 7,
       Success ''Uploaded: b.pdf'' :: unit event])"
proof -
  have new: "\<not> (\<exists>f \<in> set (get_user_files memory_service 7 one_copy).
      file_name f = up_name (sample_upload\<lparr>up_name := ''b.pdf''\<rparr>))"
    by (simp add: memory_service_def one_copy_def sample_upload_def)
  have "main_upload_file memory_service False 7 (sample_upload\<lparr>up_name := ''b.pdf''\<rparr>) one_copy =
     (case add_file memory_service (up_buffer (sample_upload\<lparr>up_name := ''b.pdf''\<rparr>))
             (up_name (sample_upload\<lparr>up_name := ''b.pdf''\<rparr>))
             (up_type (sample_upload\<lparr>up_name := ''b.pdf''\<rparr>)) 7 one_copy of
        (r, s') \<Rightarrow>
          (s', [Add_file (up_buffer (sample_upload\<lparr>up_name := ''b.pdf''\<rparr>))
                  (up_name (sample_upload\<lparr>up_name := ''b.pdf''\<rparr>))
                  (up_type (sample_upload\<lparr>up_name := ''b.pdf''\<rparr>)) 7,
                (case r of
                   Some _ \<Rightarrow> Success (''Uploaded: '' @ up_name (sample_upload\<lparr>up_name := ''b.pdf''\<rparr>))
                 | None \<Rightarrow> Error (''Failed to upload: '' @ up_name (sample_upload\<lparr>up_name := ''b.pdf''\<rparr>)))]))"
    by (rule upload_new_file_added [OF new])
  also have "\<dots> = (one_copy @ [(7, \<lparr> file_id = 2, file_name = ''b.pdf'' \<rparr>)],
      [Add_file [37, 80, 68, 70] ''b.pdf'' ''application/pdf'' 7, Success ''Uploaded: b.pdf''])"
    by (simp add: memory_service_def one_copy_def sample_upload_def Let_def)
  finally show ?thesis .
qed

text \<open>
  Claim C4 as stated promises a success message for every upload without a collision. On a
  service whose \<open>add_file\<close> returns \<open>None\<close>, the user has no files, \<open>add_file\<close> is
  called, and the message is the error.
\<close>

theorem upload_new_file_not_stored:
  "get_user_files unavailable_service 7 () = []
   \<and> main_upload_file unavailable_service False 7 sample_upload () =
     ((), [Add_file [37, 80, 68, 70] ''a.pdf'' ''application/pdf'' 7,
           Error ''Failed to upload: a.pdf'' :: unit event])"
  by (simp add: main_upload_file_def unavailable_service_def sample_upload_def add_uploaded_def)

section \<open>Properties of the LangGraph tab\<close>

subsection \<open>Events of the blocks\<close>

lemma vectorize_calls_append [simp]:
  "vectorize_calls (xs @ ys) = vectorize_calls xs @ vectorize_calls ys"
  by (induction xs rule: vectorize_calls.induct) simp_all

lemma graph_calls_append [simp]:
  "graph_calls (xs @ ys) = graph_calls xs @ graph_calls ys"
  by (induction xs rule: graph_calls.induct) simp_all

lemma downloads_append [simp]:
  "downloads (xs @ ys) = downloads xs @ downloads ys"
  by (induction xs rule: downloads.induct) simp_all

lemma select_files_quiet:
  "vectorize_calls (fst (select_files fsvc fstore u w :: 'r event list \<times> _)) = []"
  "graph_calls (fst (select_files fsvc fstore u w :: 'r event list \<times> _)) = []"
  "downloads (fst (select_files fsvc fstore u w :: 'r event list \<times> _)) = []"
  by (simp_all add: select_files_def Let_def split: option.splits sum.splits)

lemma select_links_quiet:
  "vectorize_calls (fst (select_links lsvc lstore u w :: 'r event list \<times> _)) = []"
  "graph_calls (fst (select_links lsvc lstore u w :: 'r event list \<times> _)) = []"
  "downloads (fst (select_links lsvc lstore u w :: 'r event list \<times> _)) = []"
  by (simp_all add: select_links_def Let_def split: option.splits sum.splits)

lemma map_chat_write_quiet:
  "vectorize_calls (map (Chat_write r) xs) = []"
  "graph_calls (map (Chat_write r) xs) = []"
  "downloads (map (Chat_write r) xs) = []"
  by (induction xs) simp_all

lemma display_result_quiet:
  "vectorize_calls (display_result item q) = []"
  "graph_calls (display_result item q) = []"
  "downloads (display_result item q) = []"
  by (simp_all add: display_result_def map_chat_write_quiet)

lemma display_history_quiet:
  "vectorize_calls (concat (map (\<lambda>item. display_result item True) h)) = []"
  "graph_calls (concat (map (\<lambda>item. display_result item True) h)) = []"
  "downloads (concat (map (\<lambda>item. display_result item True) h)) = []"
  by (induction h) (simp_all add: display_result_quiet)

lemma build_index_calls:
  "vectorize_calls (build_index imp w sf sl) =
     (if button w ''Build Index from Selected Files & Links'' \<and> (sf \<noteq> [] \<or> sl \<noteq> [])
      then [(sf, sl)] else [])"
  "graph_calls (build_index imp w sf sl) = []"
  "downloads (build_index imp w sf sl) = []"
  by (simp_all add: build_index_def split: sum.splits)

lemma submit_prompt_quiet:
  "vectorize_calls (fst (snd (submit_prompt imp w sf sl h))) = []"
  "downloads (fst (snd (submit_prompt imp w sf sl h))) = []"
  by (simp_all add: submit_prompt_def Let_def display_result_quiet split: option.splits sum.splits)

lemma history_controls_quiet:
  "vectorize_calls (snd (history_controls w h :: _ \<times> 'r event list)) = []"
  "graph_calls (snd (history_controls w h :: _ \<times> 'r event list)) = []"
  by (simp_all add: history_controls_def Let_def)

text \<open>A run that gets past both selections, written out block by block.\<close>

lemma render_selected:
  assumes "current_user = Some u" and "environ ''OPENAI_API_KEY'' = Some key"
    and "select_files (file_service self) fstore u w = (log1, Inr sf)"
    and "select_links (link_service self) lstore u w = (log2, Inr sl)"
  shows "render_langgraph_section self imp fstore lstore environ w current_user st =
     (case submit_prompt imp w sf sl (history_of st) of
        (history1, log5, Some e) \<Rightarrow>
          \<lparr> session = \<lparr> langgraph_history = Some history1 \<rparr>,
            log = log1 @ log2 @ build_index imp w sf sl
                  @ concat (map (\<lambda>item. display_result item True) (history_of st)) @ log5,
            raised = Some e \<rparr>
      | (history1, log5, None) \<Rightarrow>
          (case history_controls w history1 of
             (history2, log6) \<Rightarrow>
               \<lparr> session = \<lparr> langgraph_history = Some history2 \<rparr>,
                 log = log1 @ log2 @ build_index imp w sf sl
                       @ concat (map (\<lambda>item. display_result item True) (history_of st)) @ log5
                       @ log6,
                 raised = None \<rparr>))"
  using assms
  by (simp add: render_langgraph_section_def history_of_def Let_def)

lemma vectorize_calls_render:
  "vectorize_calls (log (render_langgraph_section self imp fstore lstore environ w current_user st)) =
     (case current_user of
        None \<Rightarrow> []
      | Some u \<Rightarrow>
          if environ ''OPENAI_API_KEY'' = None then []
          else (case select_files (file_service self) fstore u w :: 'r event list \<times> _ of
                  (log1, Inl e) \<Rightarrow> []
                | (log1, Inr sf) \<Rightarrow>
                    (case select_links (link_service self) lstore u w :: 'r event list \<times> _ of
                       (log2, Inl e) \<Rightarrow> []
                     | (log2, Inr sl) \<Rightarrow> vectorize_calls (build_index imp w sf sl :: 'r event list))))"
proof (cases current_user)
  case None
  then show ?thesis by (simp add: render_langgraph_section_def)
next
  case (Some u)
  show ?thesis
  proof (cases "environ ''OPENAI_API_KEY''")
    case None
    with Some show ?thesis by (simp add: render_langgraph_section_def)
  next
    case key: (Some k)
    obtain log1 r1 where f: "select_files (file_service self) fstore u w = (log1 :: 'r event list, r1)"
      by (cases "select_files (file_service self) fstore u w :: 'r event list \<times> _") 
    obtain log2 r2 where l: "select_links (link_service self) lstore u w = (log2 :: 'r event list, r2)"
      by (cases "select_links (link_service self) lstore u w :: 'r event list \<times> _")
    from f have q1: "vectorize_calls log1 = []"
      using select_files_quiet(1) [of "file_service self" fstore u w, where ?'r = 'r] by simp
    from l have q2: "vectorize_calls log2 = []"
      using select_links_quiet(1) [of "link_service self" lstore u w, where ?'r = 'r] by simp
    show ?thesis
    proof (cases r1)
      case (Inl e)
      with Some key f q1 show ?thesis by (simp add: render_langgraph_section_def)
    next
      case sf: (Inr sf)
      show ?thesis
      proof (cases r2)
        case (Inl e)
        with Some key f l sf q1 q2 show ?thesis by (simp add: render_langgraph_section_def)
      next
        case sl: (Inr sl)
        obtain h1 log5 r where p: "submit_prompt imp w sf sl (history_of st) = (h1, log5, r)"
          by (cases "submit_prompt imp w sf sl (history_of st)")
        from p have q5: "vectorize_calls log5 = []"
          using submit_prompt_quiet(1) [of imp w sf sl "history_of st"] by simp
        obtain h2 log6 where c: "history_controls w h1 = (h2, log6 :: 'r event list)"
          by (cases "history_controls w h1 :: _ \<times> 'r event list")
        from c have q6: "vectorize_calls log6 = []"
          using history_controls_quiet(1) [of w h1, where ?'r = 'r] by simp
        note run = render_selected [where environ = environ and imp = imp and st = st,
            OF Some key f [unfolded sf] l [unfolded sl]]
        from p c q1 q2 q5 q6 show ?thesis
          unfolding run
          by (cases r) (simp_all add: Some key f l sf sl display_history_quiet)
      qed
    qed
  qed
qed

subsection \<open>Sample runs\<close>

lemmas sample_defs = sample_ui_def memory_service_def memory_links_def one_copy_def
  sample_links_def sample_user_def idle_def sample_externals_def sample_environ_def
  sample_history_def

lemmas block_defs = render_langgraph_section_def select_files_def select_links_def
  build_index_def submit_prompt_def history_controls_def display_result_def
  dict_by_def dict_get_def history_of_def Let_def

lemma sample_selection:
  "select_files (file_service sample_ui) one_copy sample_user
     (idle\<lparr>multiselect := \<lambda>label options. options, chat_input := \<lambda>placeholder. Some q\<rparr>) =
     ([Success ''Selected 1 files for RAG''] :: string event list,
      Inr [\<lparr> file_id = 1, file_name = ''a.pdf'' \<rparr>])"
  "select_links (link_service sample_ui) sample_links sample_user
     (idle\<lparr>multiselect := \<lambda>label options. options, chat_input := \<lambda>placeholder. Some q\<rparr>) =
     ([Success ''Selected 1 links for RAG''] :: string event list,
      Inr [\<lparr> url = ''https://example.org/manual'' \<rparr>])"
  by (simp_all add: select_files_def select_links_def sample_defs dict_by_def dict_get_def
      str_nat.simps)

subsection \<open>Rendering an entry\<close>

lemma startswith_iff: "startswith s p \<longleftrightarrow> (\<exists>rest. s = p @ rest)"
  by (induction s p rule: startswith.induct) auto

text \<open>
  Claim C8. An entry whose answer begins with the literal \<open>Error\<close> is shown by
  \<open>chat_message("ai").error\<close> and nothing else follows it; every other entry is shown by
  \<open>chat_message("ai").write\<close>, followed by its events. No entry takes both paths: the
  events of one \<open>display_result\<close> never hold both an error message and an \<open>ai\<close> write.
\<close>

theorem display_result_error_path:
  "((\<exists>rest. answer item = ''Error'' @ rest) \<longrightarrow>
      (display_result item show_question :: 'r event list) =
        (if show_question then [Chat_write ''user'' (question item)] else [])
        @ [Chat_error ''ai'' (answer item)])
   \<and> ((\<nexists>rest. answer item = ''Error'' @ rest) \<longrightarrow>
      (display_result item show_question :: 'r event list) =
        (if show_question then [Chat_write ''user'' (question item)] else [])
        @ Chat_write ''ai'' (answer item) # map (Chat_write ''ai'') (events item))
   \<and> \<not> ((\<exists>role text. Chat_error role text \<in> set (display_result item show_question :: 'r event list))
        \<and> (\<exists>text. Chat_write ''ai'' text \<in> set (display_result item show_question :: 'r event list)))"
  unfolding display_result_def startswith_iff by auto

text \<open>
  The theorem at an entry with an error answer (its events are not shown) and at an entry
  with a normal answer.
\<close>

theorem display_result_error_path_witness:
  "(display_result \<lparr> question = ''Which pump?'', answer = ''Error: no index'', events = [''retrieve''] \<rparr> True
      :: unit event list) =
     [Chat_write ''user'' ''Which pump?'', Chat_error ''ai'' ''Error: no index'']
   \<and> (display_result \<lparr> question = ''Torque?'', answer = ''40 Nm'', events = [''retrieve'', ''generate''] \<rparr> False
      :: unit event list) =
     [Chat_write ''ai'' ''40 Nm'', Chat_write ''ai'' ''retrieve'', Chat_write ''ai'' ''generate'']"
proof -
  have err: "\<exists>rest. answer \<lparr> question = ''Which pump?'', answer = ''Error: no index'',
      events = [''retrieve''] \<rparr> = ''Error'' @ rest"
    by simp
  have ok: "\<nexists>rest. answer \<lparr> question = ''Torque?'', answer = ''40 Nm'',
      events = [''retrieve'', ''generate''] \<rparr> = ''Error'' @ rest"
    by simp
  from err ok show ?thesis
    using display_result_error_path
        [of "\<lparr> question = ''Which pump?'', answer = ''Error: no index'', events = [''retrieve''] \<rparr>"
          True, where ?'r = unit]
      display_result_error_path
        [of "\<lparr> question = ''Torque?'', answer = ''40 Nm'', events = [''retrieve'', ''generate''] \<rparr>"
          False, where ?'r = unit]
    by simp
qed

subsection \<open>Building the index\<close>

text \<open>
  Claim C10. In any run, a call of \<open>vectorize\<close> has at least one file or link among its
  arguments and happens only when the build button was pressed. When the button is
  pressed in a run that selected no file and no link, \<open>vectorize\<close> is not called and the
  warning is shown.
\<close>

theorem build_index_requires_selection:
  "((files, links) \<in> set (vectorize_calls
        (log (render_langgraph_section self (imp :: 'r externals) fstore lstore environ w
               current_user st))) \<longrightarrow>
      (files \<noteq> [] \<or> links \<noteq> []) \<and> button w ''Build Index from Selected Files & Links'')
   \<and> (current_user = Some u \<and> environ ''OPENAI_API_KEY'' = Some key
        \<and> select_files (file_service self) fstore u w = (log1 :: 'r event list, Inr [])
        \<and> select_links (link_service self) lstore u w = (log2 :: 'r event list, Inr [])
        \<and> button w ''Build Index from Selected Files & Links'' \<longrightarrow>
      vectorize_calls
        (log (render_langgraph_section self imp fstore lstore environ w current_user st)) = []
      \<and> Warning ''Please select at least one file or link to build the index.''
          \<in> set (log (render_langgraph_section self imp fstore lstore environ w current_user st)))"
proof -
  let ?run = "render_langgraph_section self imp fstore lstore environ w current_user st"
  have only: "(files \<noteq> [] \<or> links \<noteq> []) \<and> button w ''Build Index from Selected Files & Links''"
    if "(files, links) \<in> set (vectorize_calls (log ?run))"
    using that unfolding vectorize_calls_render
    by (auto simp: build_index_calls split: option.splits if_splits sum.splits)
  have none: "vectorize_calls (log ?run) = []
      \<and> Warning ''Please select at least one file or link to build the index.'' \<in> set (log ?run)"
    if reach: "current_user = Some u \<and> environ ''OPENAI_API_KEY'' = Some key
        \<and> select_files (file_service self) fstore u w = (log1, Inr [])
        \<and> select_links (link_service self) lstore u w = (log2, Inr [])
        \<and> button w ''Build Index from Selected Files & Links''"
  proof
    from reach show "vectorize_calls (log ?run) = []"
      unfolding vectorize_calls_render by (simp add: build_index_calls)
    from reach have run: "?run =
       (case submit_prompt imp w [] [] (history_of st) of
          (history1, log5, Some e) \<Rightarrow>
            \<lparr> session = \<lparr> langgraph_history = Some history1 \<rparr>,
              log = log1 @ log2 @ build_index imp w [] []
                    @ concat (map (\<lambda>item. display_result item True) (history_of st)) @ log5,
              raised = Some e \<rparr>
        | (history1, log5, None) \<Rightarrow>
            (case history_controls w history1 of
               (history2, log6) \<Rightarrow>
                 \<lparr> session = \<lparr> langgraph_history = Some history2 \<rparr>,
                   log = log1 @ log2 @ build_index imp w [] []
                         @ concat (map (\<lambda>item. display_result item True) (history_of st)) @ log5
                         @ log6,
                   raised = None \<rparr>))"
      using render_selected [of current_user u environ key self fstore w log1 "[]" lstore log2 "[]" imp st]
      by blast
    from reach show "Warning ''Please select at least one file or link to build the index.''
        \<in> set (log ?run)"
      unfolding run by (simp add: build_index_def split: prod.splits option.splits)
  qed
  from only none show ?thesis by blast
qed

text \<open>
  The theorem at a run of the sample user who presses the build button with nothing
  selected.
\<close>

theorem build_index_requires_selection_witness:
  "vectorize_calls (log (render_langgraph_section sample_ui sample_externals one_copy sample_links
      sample_environ (idle\<lparr>button := \<lambda>label. label = ''Build Index from Selected Files & Links''\<rparr>)
      (Some sample_user) \<lparr> langgraph_history = None \<rparr>)) = []
   \<and> Warning ''Please select at least one file or link to build the index.''
       \<in> set (log (render_langgraph_section sample_ui sample_externals one_copy sample_links
      sample_environ (idle\<lparr>button := \<lambda>label. label = ''Build Index from Selected Files & Links''\<rparr>)
      (Some sample_user) \<lparr> langgraph_history = None \<rparr>))"
proof -
  let ?w = "idle\<lparr>button := \<lambda>label. label = ''Build Index from Selected Files & Links''\<rparr>"
  have files: "select_files (file_service sample_ui) one_copy sample_user ?w =
      ([] :: string event list, Inr [])"
    by (simp add: select_files_def sample_ui_def memory_service_def one_copy_def
        sample_user_def idle_def dict_by_def)
  have links: "select_links (link_service sample_ui) sample_links sample_user ?w =
      ([] :: string event list, Inr [])"
    by (simp add: select_links_def sample_ui_def memory_links_def sample_links_def
        sample_user_def idle_def dict_by_def)
  have key: "sample_environ ''OPENAI_API_KEY'' = Some ''sk-test''"
    by (simp add: sample_environ_def)
  have pressed: "button ?w ''Build Index from Selected Files & Links''"
    by simp
  from files links key pressed show ?thesis
    using build_index_requires_selection
      [of _ _ sample_ui sample_externals one_copy sample_links sample_environ ?w "Some sample_user"
        "\<lparr> langgraph_history = None \<rparr>" sample_user "''sk-test''" "[]" "[]"]
    by simp
qed



subsection \<open>Submitting a prompt\<close>

lemma submit_prompt_submitted:
  assumes "chat_input w ''Ask a Question'' = Some prompt" and "prompt \<noteq> []"
  shows "submit_prompt imp w sf sl h =
     (let shown = Chat_write ''user'' prompt #
            (if sf = [] \<and> sl = []
             then [Chat_warning ''AI'' (''You haven't selected any files or links. ''
                     @ ''LangGraph will use default sources or web search.'')]
             else []);
          inputs = \<lparr> inputs_question = prompt, inputs_retriever_id = get_retriever_id imp sf sl \<rparr>
      in case graph_invoke imp inputs of
           Inl e \<Rightarrow> (h, shown @ [Graph_invoke inputs], Some e)
         | Inr final_state \<Rightarrow>
             (case final_state ''generation'' of
                None \<Rightarrow> (h, shown @ [Graph_invoke inputs], Some (KeyError ''generation''))
              | Some generation \<Rightarrow>
                  (h @ [\<lparr> question = prompt, answer = generation, events = [] \<rparr>],
                   shown @ [Graph_invoke inputs]
                   @ display_result \<lparr> question = prompt, answer = generation, events = [] \<rparr> False,
                   None)))"
  using assms by (auto simp: submit_prompt_def Let_def split: sum.splits option.splits)

lemma submit_prompt_graph_calls:
  assumes "chat_input w ''Ask a Question'' = Some prompt" and "prompt \<noteq> []"
  shows "graph_calls (fst (snd (submit_prompt imp w sf sl h))) =
     [\<lparr> inputs_question = prompt, inputs_retriever_id = get_retriever_id imp sf sl \<rparr>]"
  unfolding submit_prompt_submitted [OF assms]
  by (simp add: Let_def display_result_quiet split: sum.splits option.splits)

lemma graph_calls_selected:
  assumes "select_files fsvc fstore u w = (log1 :: 'r event list, Inr sf)"
    and "select_links lsvc lstore u w = (log2 :: 'r event list, Inr sl)"
  shows "graph_calls log1 = [] \<and> graph_calls log2 = []"
  using select_files_quiet(2) [of fsvc fstore u w, where ?'r = 'r]
    select_links_quiet(2) [of lsvc lstore u w, where ?'r = 'r] assms
  by simp

text \<open>
  Claim C5. In a run with a submitted prompt, the graph is invoked exactly once, with the
  inputs \<open>{question: prompt, retriever_id: get_retriever_id(selected_files,
  selected_links)}\<close>. When the invocation returns a state holding \<open>generation\<close>, the
  entry \<open>{question, answer: generation, events: []}\<close> is appended to the history, the run
  ends without an exception, and the session keeps the extended history (unless the
  clear button is pressed in the same run).
\<close>

theorem prompt_invokes_graph_and_appends:
  assumes "current_user = Some u" and "environ ''OPENAI_API_KEY'' = Some key"
    and "select_files (file_service self) fstore u w = (log1 :: 'r event list, Inr sf)"
    and "select_links (link_service self) lstore u w = (log2 :: 'r event list, Inr sl)"
    and "chat_input w ''Ask a Question'' = Some prompt" and "prompt \<noteq> []"
  shows "graph_calls (log (render_langgraph_section self (imp :: 'r externals) fstore lstore environ w
            current_user st)) =
           [\<lparr> inputs_question = prompt, inputs_retriever_id = get_retriever_id imp sf sl \<rparr>]
    \<and> (\<forall>final_state generation.
          graph_invoke imp
            \<lparr> inputs_question = prompt, inputs_retriever_id = get_retriever_id imp sf sl \<rparr>
            = Inr final_state
          \<and> final_state ''generation'' = Some generation \<longrightarrow>
          fst (submit_prompt imp w sf sl (history_of st)) =
            history_of st @ [\<lparr> question = prompt, answer = generation, events = [] \<rparr>]
          \<and> raised (render_langgraph_section self imp fstore lstore environ w current_user st) = None
          \<and> langgraph_history
              (session (render_langgraph_section self imp fstore lstore environ w current_user st)) =
              Some (if button w ''Clear History'' then []
                    else history_of st @ [\<lparr> question = prompt, answer = generation, events = [] \<rparr>]))"
proof -
  note run = render_selected [of current_user u environ key self fstore w log1 sf lstore log2 sl imp st,
      OF assms(1-4)]
  note quiet = graph_calls_selected [OF assms(3,4)]
  obtain h1 log5 r where p: "submit_prompt imp w sf sl (history_of st) = (h1, log5, r)"
    by (cases "submit_prompt imp w sf sl (history_of st)")
  obtain h2 log6 where c: "history_controls w h1 = (h2, log6 :: 'r event list)"
    by (cases "history_controls w h1 :: _ \<times> 'r event list")
  have calls5: "graph_calls log5 =
      [\<lparr> inputs_question = prompt, inputs_retriever_id = get_retriever_id imp sf sl \<rparr>]"
    using submit_prompt_graph_calls [OF assms(5,6), of imp sf sl "history_of st"] p by simp
  have calls6: "graph_calls log6 = []"
    using history_controls_quiet(2) [of w h1, where ?'r = 'r] c by simp
  have invoked: "graph_calls (log (render_langgraph_section self imp fstore lstore environ w
      current_user st)) =
      [\<lparr> inputs_question = prompt, inputs_retriever_id = get_retriever_id imp sf sl \<rparr>]"
    unfolding run p
    by (cases r) (simp_all add: c quiet calls5 calls6 build_index_calls display_history_quiet)
  have appended: "fst (submit_prompt imp w sf sl (history_of st)) =
            history_of st @ [\<lparr> question = prompt, answer = generation, events = [] \<rparr>]
          \<and> raised (render_langgraph_section self imp fstore lstore environ w current_user st) = None
          \<and> langgraph_history
              (session (render_langgraph_section self imp fstore lstore environ w current_user st)) =
              Some (if button w ''Clear History'' then []
                    else history_of st @ [\<lparr> question = prompt, answer = generation, events = [] \<rparr>])"
    if "graph_invoke imp
            \<lparr> inputs_question = prompt, inputs_retriever_id = get_retriever_id imp sf sl \<rparr>
            = Inr final_state" and "final_state ''generation'' = Some generation"
    for final_state generation
    unfolding run submit_prompt_submitted [OF assms(5,6)]
    using that by (simp add: Let_def history_controls_def)
  from invoked appended show ?thesis by blast
qed

text \<open>
  The theorem at a run that asks \<open>hi\<close> with a file and a link selected and two entries
  in the history.
\<close>

theorem prompt_invokes_graph_and_appends_witness:
  "graph_calls (log (render_langgraph_section sample_ui sample_externals one_copy sample_links
      sample_environ
      (idle\<lparr>multiselect := \<lambda>label options. options, chat_input := \<lambda>placeholder. Some ''hi''\<rparr>)
      (Some sample_user) \<lparr> langgraph_history = Some sample_history \<rparr>)) =
     [\<lparr> inputs_question = ''hi'', inputs_retriever_id = ''a.pdfhttps://example.org/manual'' \<rparr>]
   \<and> langgraph_history (session (render_langgraph_section sample_ui sample_externals one_copy
      sample_links sample_environ
      (idle\<lparr>multiselect := \<lambda>label options. options, chat_input := \<lambda>placeholder. Some ''hi''\<rparr>)
      (Some sample_user) \<lparr> langgraph_history = Some sample_history \<rparr>)) =
     Some (sample_history @
       [\<lparr> question = ''hi'', answer = ''Index a.pdfhttps://example.org/manual'', events = [] \<rparr>])"
proof -
  let ?w = "idle\<lparr>multiselect := \<lambda>label options. options, chat_input := \<lambda>placeholder. Some ''hi''\<rparr>"
  let ?f = "\<lparr> file_id = 1, file_name = ''a.pdf'' \<rparr>"
  let ?l = "\<lparr> url = ''https://example.org/manual'' \<rparr>"
  let ?st = "\<lparr> langgraph_history = Some sample_history \<rparr>"
  have key: "sample_environ ''OPENAI_API_KEY'' = Some ''sk-test''"
    by (simp add: sample_environ_def)
  have asked: "chat_input ?w ''Ask a Question'' = Some ''hi''"
    by (simp add: idle_def)
  have rid: "get_retriever_id sample_externals [?f] [?l] = ''a.pdfhttps://example.org/manual''"
    by (simp add: sample_externals_def)
  have answered: "graph_invoke sample_externals
      \<lparr> inputs_question = ''hi'', inputs_retriever_id = get_retriever_id sample_externals [?f] [?l] \<rparr>
      = Inr [''generation'' \<mapsto> ''Index a.pdfhttps://example.org/manual'']
    \<and> [''generation'' \<mapsto> ''Index a.pdfhttps://example.org/manual''] ''generation''
      = Some ''Index a.pdfhttps://example.org/manual''"
    by (simp add: sample_externals_def)
  have quiet: "\<not> button ?w ''Clear History''"
    by (simp add: idle_def)
  note claim = prompt_invokes_graph_and_appends [where environ = sample_environ and st = ?st
      and imp = sample_externals, OF refl key sample_selection asked]
  have "''hi'' \<noteq> []"
    by simp
  from claim [OF this] answered quiet rid show ?thesis
    by (simp add: history_of_def)
qed




subsection \<open>The history across a run\<close>

lemma submit_prompt_history:
  "fst (submit_prompt imp w sf sl h) = h
   \<or> (\<exists>entry. fst (submit_prompt imp w sf sl h) = h @ [entry])"
  by (simp add: submit_prompt_def Let_def split: option.splits sum.splits)

lemma submit_prompt_historyD:
  "submit_prompt imp w sf sl h = (h1, log5, r) \<Longrightarrow> h1 = h \<or> (\<exists>entry. h1 = h @ [entry])"
  using submit_prompt_history [of imp w sf sl h] by simp

lemma history_controls_history:
  "fst (history_controls w h :: _ \<times> 'r event list) =
     (if button w ''Clear History'' then [] else h)"
  by (simp add: history_controls_def Let_def)

lemma history_render:
  "history_of (session (render_langgraph_section self (imp :: 'r externals) fstore lstore environ w
      current_user st)) =
     (case current_user of
        None \<Rightarrow> history_of st
      | Some u \<Rightarrow>
          if environ ''OPENAI_API_KEY'' = None then history_of st
          else (case select_files (file_service self) fstore u w :: 'r event list \<times> _ of
                  (log1, Inl e) \<Rightarrow> history_of st
                | (log1, Inr sf) \<Rightarrow>
                    (case select_links (link_service self) lstore u w :: 'r event list \<times> _ of
                       (log2, Inl e) \<Rightarrow> history_of st
                     | (log2, Inr sl) \<Rightarrow>
                         (case submit_prompt imp w sf sl (history_of st) of
                            (history1, log5, Some e) \<Rightarrow> history1
                          | (history1, log5, None) \<Rightarrow>
                              (if button w ''Clear History'' then [] else history1)))))"
proof (cases current_user)
  case None
  then show ?thesis by (simp add: render_langgraph_section_def)
next
  case (Some u)
  show ?thesis
  proof (cases "environ ''OPENAI_API_KEY''")
    case None
    with Some show ?thesis by (simp add: render_langgraph_section_def)
  next
    case key: (Some k)
    obtain log1 r1 where f: "select_files (file_service self) fstore u w = (log1 :: 'r event list, r1)"
      by (cases "select_files (file_service self) fstore u w :: 'r event list \<times> _")
    obtain log2 r2 where l: "select_links (link_service self) lstore u w = (log2 :: 'r event list, r2)"
      by (cases "select_links (link_service self) lstore u w :: 'r event list \<times> _")
    show ?thesis
    proof (cases r1)
      case (Inl e)
      with Some key f show ?thesis
        by (simp add: render_langgraph_section_def history_of_def)
    next
      case sf: (Inr sf)
      show ?thesis
      proof (cases r2)
        case (Inl e)
        with Some key f l sf show ?thesis
          by (simp add: render_langgraph_section_def history_of_def)
      next
        case sl: (Inr sl)
        note run = render_selected [of current_user u environ k self fstore w log1 sf lstore log2 sl
            imp st, OF Some key f [unfolded sf] l [unfolded sl]]
        show ?thesis
          unfolding run
          by (simp add: Some key f l sf sl history_of_def [of "\<lparr>langgraph_history = _\<rparr>"]
              history_controls_def Let_def split: prod.splits option.splits)
      qed
    qed
  qed
qed

text \<open>
  Claim C6. A run of the tab leaves the history as it was, or appends one entry at its
  end, or (only with the clear button pressed) leaves it empty; and a run that reaches the
  clear button with the button pressed leaves the history empty.
\<close>

theorem history_append_only:
  "(history_of (session (render_langgraph_section self imp fstore lstore environ w current_user st))
      = history_of st
    \<or> (\<exists>entry.
          history_of (session (render_langgraph_section self imp fstore lstore environ w current_user st))
          = history_of st @ [entry])
    \<or> (button w ''Clear History''
        \<and> history_of (session (render_langgraph_section self imp fstore lstore environ w current_user st))
          = []))
   \<and> (current_user = Some u \<and> environ ''OPENAI_API_KEY'' = Some key
        \<and> raised (render_langgraph_section self imp fstore lstore environ w current_user st) = None
        \<and> button w ''Clear History'' \<longrightarrow>
      history_of (session (render_langgraph_section self imp fstore lstore environ w current_user st))
        = [])"
proof -
  let ?run = "render_langgraph_section self imp fstore lstore environ w current_user st"
  have step: "history_of (session ?run) = history_of st
    \<or> (\<exists>entry. history_of (session ?run) = history_of st @ [entry])
    \<or> (button w ''Clear History'' \<and> history_of (session ?run) = [])"
    unfolding history_render
    by (auto split: option.splits sum.splits prod.splits dest: submit_prompt_historyD)
  have clear: "history_of (session ?run) = []"
    if "current_user = Some u" "environ ''OPENAI_API_KEY'' = Some key" "raised ?run = None"
      "button w ''Clear History''"
    using that unfolding history_render
    by (auto simp: render_langgraph_section_def Let_def history_of_def
        split: option.splits sum.splits prod.splits)
  from step clear show ?thesis by blast
qed

text \<open>
  The theorem at a run that presses the clear button on a history of two entries.
\<close>

theorem history_append_only_witness:
  "history_of (session (render_langgraph_section sample_ui sample_externals one_copy sample_links
      sample_environ (idle\<lparr>button := \<lambda>label. label = ''Clear History''\<rparr>) (Some sample_user)
      \<lparr> langgraph_history = Some sample_history \<rparr>)) = []"
proof -
  let ?w = "idle\<lparr>button := \<lambda>label. label = ''Clear History''\<rparr>"
  have key: "sample_environ ''OPENAI_API_KEY'' = Some ''sk-test''"
    by (simp add: sample_environ_def)
  have finished: "raised (render_langgraph_section sample_ui sample_externals one_copy sample_links
      sample_environ ?w (Some sample_user) \<lparr> langgraph_history = Some sample_history \<rparr>) = None"
    by (simp add: block_defs sample_defs)
  have pressed: "button ?w ''Clear History''"
    by simp
  from key finished pressed show ?thesis
    using history_append_only [of sample_ui sample_externals one_copy sample_links sample_environ ?w
        "Some sample_user" "\<lparr> langgraph_history = Some sample_history \<rparr>" sample_user "''sk-test''"]
    by blast
qed

section \<open>The downloaded history\<close>






























end
